theory Spec2Isabelle
  imports Complex_Main "HOL-Library.Sublist"
begin

section \<open>Python values\<close>

text \<open>
  A Python \<open>str\<close> is modelled as a HOL \<open>string\<close>, one \<open>char\<close> per code point; the
  model covers texts whose code points lie in 0..255. On that range \<open>str.lower\<close> shifts
  A..Z and the Latin-1 capitals (192..222 without the multiplication sign 215) by 32 and
  leaves every other code point alone. Floats are modelled by the real numbers they denote.
\<close>

definition lower_char :: "char \<Rightarrow> char" where
  "lower_char c =
     (let n = (of_char c :: nat)
      in if (65 \<le> n \<and> n \<le> 90) \<or> (192 \<le> n \<and> n \<le> 222 \<and> n \<noteq> 215)
         then char_of (n + 32) else c)"

definition lower :: "string \<Rightarrow> string" where
  "lower s = map lower_char s"

text \<open>\<open>s in t\<close> on two strings: \<open>s\<close> occurs in \<open>t\<close> as a contiguous run.\<close>

definition py_in :: "string \<Rightarrow> string \<Rightarrow> bool" where
  "py_in s t = sublist s t"

text \<open>\<open>sep.join(parts)\<close>.\<close>

fun join :: "string \<Rightarrow> string list \<Rightarrow> string" where
  "join sep [] = []"
| "join sep [p] = p"
| "join sep (p # q # ps) = p @ sep @ join sep (q # ps)"

text \<open>Values found in the lead dictionary, in form metadata and in index metadata.\<close>

datatype py_val = PNone | PStr string | PInt int

type_synonym py_dict = "(string \<times> py_val) list"

fun truthy :: "py_val \<Rightarrow> bool" where
  "truthy PNone = False"
| "truthy (PStr s) = (s \<noteq> [])"
| "truthy (PInt i) = (i \<noteq> 0)"

function str_nat :: "nat \<Rightarrow> string" where
  "str_nat n = (if n < 10 then [char_of (48 + n)] else str_nat (n div 10) @ [char_of (48 + n mod 10)])"
  by pat_completeness auto
termination
  by (relation "measure (\<lambda>n. n)") auto

declare str_nat.simps [simp del]

definition str_int :: "int \<Rightarrow> string" where
  "str_int i = (if i < 0 then CHR ''-'' # str_nat (nat (- i)) else str_nat (nat i))"

text \<open>\<open>str(v)\<close>, which is what an f-string placeholder and \<open>str.format\<close> insert.\<close>

fun py_str :: "py_val \<Rightarrow> string" where
  "py_str PNone = ''None''"
| "py_str (PStr s) = s"
| "py_str (PInt i) = str_int i"

text \<open>\<open>d.get(k)\<close> and \<open>d.get(k, default)\<close>.\<close>

definition dict_get :: "py_dict \<Rightarrow> string \<Rightarrow> py_val \<Rightarrow> py_val" where
  "dict_get d k dflt = (case map_of d k of None \<Rightarrow> dflt | Some v \<Rightarrow> v)"

text \<open>
  \<open>repr\<close> of a string that has no quote, no backslash and only printable ASCII: the
  string between single quotes. It is applied to the signal phrases only.
\<close>

definition repr_str :: "string \<Rightarrow> string" where
  "repr_str s = [CHR 0x27] @ s @ [CHR 0x27]"

definition repr_list :: "string list \<Rightarrow> string" where
  "repr_list xs = ''['' @ join '', '' (map repr_str xs) @ '']''"

datatype error =
    AttributeError
  | IndexError
  | TypeError
  | ValueError
  | EmbeddingBackendError
  | VectorIndexError
  | GenerationBackendError
  | DatabaseError
  | ConfigurationError

section \<open>models.py: rows of the knowledge base and of the audit trail\<close>

text \<open>
  A lead dictionary as the callers build it. Each field is \<open>None\<close> when the key is
  missing and \<open>Some v\<close> when it is present with value \<open>v\<close>, which may be Python's
  \<open>None\<close>; \<open>source_metadata\<close> is missing, \<open>None\<close> or a dictionary.
\<close>

record lead_data =
  name :: "py_val option"
  company :: "py_val option"
  email :: "py_val option"
  source_metadata :: "py_dict option option"

definition get_or :: "py_val option \<Rightarrow> py_val \<Rightarrow> py_val" where
  "get_or field dflt = (case field of None \<Rightarrow> dflt | Some v \<Rightarrow> v)"

record KnowledgeBase =
  kb_id :: int
  kb_title :: "string option"
  kb_content :: string
  kb_doc_type :: "string option"
  kb_source_url :: "string option"
  kb_embedding_id :: "string option"
  kb_priority :: "int option"
  kb_active :: bool

record ModelLog =
  ml_model_version :: string
  ml_operation :: string
  ml_input_data :: "lead_data \<times> string"
  ml_output_data :: "string \<times> string"
  ml_latency_ms :: int
  ml_tokens_used :: int
  ml_cost_usd :: real
  ml_confidence_score :: real

section \<open>The external collaborators\<close>

text \<open>
  The embedding backends, the vector index, the generative backend, the database commit
  and the clock are libraries and services outside the repository. The code is modelled
  over any behaviour of theirs: each is a field of \<open>env\<close>, and each may fail.
  The state the code reads and writes is the record \<open>world\<close>: the two database tables,
  the entries of the persisted vector collection, and a log of the requests sent to the
  embedding backend and to the vector index (newest last).
\<close>

record vs_entry =
  entry_id :: string
  entry_embedding :: "real list"
  entry_document :: string
  entry_metadata :: py_dict

datatype call =
    EmbedCall "string list"
  | AddCall "string list"
  | QueryCall "real list" nat "py_dict option"

record request =
  rq_model :: string
  rq_max_tokens :: nat
  rq_system :: string
  rq_user :: string

record response =
  rs_content :: "string list"
  rs_input_tokens :: int
  rs_output_tokens :: int

record env =
  st_load :: "string \<Rightarrow> error option"
  openai_init :: "error option"
  st_encode :: "string \<Rightarrow> string list \<Rightarrow> error + real list list"
  openai_embeddings :: "string list \<Rightarrow> error + real list list"
  coll_add :: "vs_entry list \<Rightarrow> string list \<Rightarrow> real list list \<Rightarrow> string list \<Rightarrow> py_dict list
                 \<Rightarrow> error + vs_entry list"
  coll_query :: "vs_entry list \<Rightarrow> real list \<Rightarrow> nat \<Rightarrow> py_dict option
                   \<Rightarrow> error + (string \<times> string \<times> real \<times> py_dict) list"
  db_commit :: "error option"
  messages_create :: "request \<Rightarrow> error + response"
  elapsed_ms :: int

record world =
  knowledge_base :: "KnowledgeBase list"
  model_logs :: "ModelLog list"
  collection :: "vs_entry list"
  calls :: "call list"

section \<open>rag\_pipeline.py: the embedding service and the vector store\<close>

record retrieved_context =
  doc_id :: string
  content :: string
  score :: real
  metadata :: py_dict

record EmbeddingService =
  model_name :: string
  uses_client :: bool


text \<open>\<open>EmbeddingService.embed_batch\<close>\<close>

definition embed_batch ::
  "env \<Rightarrow> EmbeddingService \<Rightarrow> string list \<Rightarrow> world \<Rightarrow> (error + real list list) \<times> world" where
  "embed_batch e es texts w =
     (let w' = w\<lparr>calls := calls w @ [EmbedCall texts]\<rparr>
      in if uses_client es then (openai_embeddings e texts, w')
         else (st_encode e (model_name es) texts, w'))"

text \<open>
  \<open>EmbeddingService.embed\<close>: one text. The API path reads \<open>response.data[0]\<close>; the local
  path encodes the single text, modelled as the one-element batch.
\<close>

definition embed ::
  "env \<Rightarrow> EmbeddingService \<Rightarrow> string \<Rightarrow> world \<Rightarrow> (error + real list) \<times> world" where
  "embed e es text w =
     (let w' = w\<lparr>calls := calls w @ [EmbedCall [text]]\<rparr>;
          r = (if uses_client es then openai_embeddings e [text]
               else st_encode e (model_name es) [text])
      in case r of
           Inl err \<Rightarrow> (Inl err, w')
         | Inr [] \<Rightarrow> (Inl IndexError, w')
         | Inr (v # _) \<Rightarrow> (Inr v, w'))"

record vector_doc =
  vd_id :: string
  vd_content :: string
  vd_metadata :: py_dict

text \<open>\<open>VectorStore.add_documents\<close>\<close>

definition add_documents ::
  "env \<Rightarrow> vector_doc list \<Rightarrow> real list list \<Rightarrow> world \<Rightarrow> (error + unit) \<times> world" where
  "add_documents e documents embeddings w =
     (let w' = w\<lparr>calls := calls w @ [AddCall (map vd_id documents)]\<rparr>
      in case coll_add e (collection w) (map vd_id documents) embeddings
                (map vd_content documents) (map vd_metadata documents) of
           Inl err \<Rightarrow> (Inl err, w')
         | Inr c \<Rightarrow> (Inr (), w'\<lparr>collection := c\<rparr>))"

text \<open>
  \<open>VectorStore.search\<close>: the rows of the query result, the distance turned into a
  similarity.
\<close>

definition search ::
  "env \<Rightarrow> real list \<Rightarrow> nat \<Rightarrow> py_dict option \<Rightarrow> world
     \<Rightarrow> (error + retrieved_context list) \<times> world" where
  "search e query_embedding n_results filter_metadata w =
     (let w' = w\<lparr>calls := calls w @ [QueryCall query_embedding n_results filter_metadata]\<rparr>
      in case coll_query e (collection w) query_embedding n_results filter_metadata of
           Inl err \<Rightarrow> (Inl err, w')
         | Inr rows \<Rightarrow>
             (Inr (map (\<lambda>(i, d, dist, m).
                          \<lparr>doc_id = i, content = d, score = 1.0 - dist, metadata = m\<rparr>) rows),
              w'))"

text \<open>\<open>VectorStore.delete_document\<close> is defined in the source and called nowhere.\<close>

section \<open>rag\_pipeline.py: the rule classifier\<close>

definition hot_signals :: "string list" where
  "hot_signals = [''urgent'', ''asap'', ''immediately'', ''buy now'', ''purchase'',
                  ''pricing'', ''demo'', ''trial'', ''start today'']"

definition warm_signals :: "string list" where
  "warm_signals = [''interested'', ''learn more'', ''information'', ''how does'',
                   ''tell me about'', ''curious'', ''exploring'']"

text \<open>\<open>[s for s in signals if s in query_lower]\<close>\<close>

definition matched :: "string list \<Rightarrow> string \<Rightarrow> string list" where
  "matched signals query_lower = filter (\<lambda>s. py_in s query_lower) signals"

text \<open>
  \<open>RAGPipeline._classify_with_rules\<close>. The third argument, \<open>source_meta\<close>, is accepted and
  never read, as in the source.
\<close>

definition classify_with_rules ::
  "string \<Rightarrow> retrieved_context list \<Rightarrow> py_dict \<Rightarrow> string \<times> real \<times> string" where
  "classify_with_rules query contexts source_meta =
     (let query_lower = lower query
      in if list_ex (\<lambda>signal. py_in signal query_lower) hot_signals
         then (''hot'', 0.85,
               ''High-intent keywords detected: '' @ repr_list (matched hot_signals query_lower))
         else if list_ex (\<lambda>signal. py_in signal query_lower) warm_signals
         then (''warm'', 0.70,
               ''Interest indicators found: '' @ repr_list (matched warm_signals query_lower))
         else if length query < 20
         then (''cold'', 0.60, ''Brief inquiry, needs more context'')
         else if contexts \<noteq> [] \<and> score (hd contexts) > 0.7
         then (''warm'', 0.65,
               ''Relevant to our knowledge base: ''
                 @ py_str (dict_get (metadata (hd contexts)) ''title'' (PStr ''N/A'')))
         else (''cold'', 0.50, ''Standard inquiry, no strong signals''))"

section \<open>rag\_pipeline.py: indexing, classification and retrieval\<close>

definition is_set :: "string option \<Rightarrow> bool" where
  "is_set x = (case x of None \<Rightarrow> False | Some s \<Rightarrow> s \<noteq> [])"

definition opt_str :: "string option \<Rightarrow> py_val" where
  "opt_str x = (case x of None \<Rightarrow> PNone | Some s \<Rightarrow> PStr s)"

definition opt_int :: "int option \<Rightarrow> py_val" where
  "opt_int x = (case x of None \<Rightarrow> PNone | Some i \<Rightarrow> PInt i)"

definition kb_doc_id :: "KnowledgeBase \<Rightarrow> string" where
  "kb_doc_id doc = ''kb_'' @ str_int (kb_id doc)"

definition needs_index :: "bool \<Rightarrow> KnowledgeBase \<Rightarrow> bool" where
  "needs_index force_refresh doc = (force_refresh \<or> \<not> is_set (kb_embedding_id doc))"

definition to_vector_doc :: "KnowledgeBase \<Rightarrow> vector_doc" where
  "to_vector_doc doc =
     \<lparr>vd_id = kb_doc_id doc,
      vd_content = kb_content doc,
      vd_metadata =
        [(''title'', opt_str (kb_title doc)),
         (''doc_type'', opt_str (kb_doc_type doc)),
         (''source_url'', PStr (case kb_source_url doc of None \<Rightarrow> [] | Some u \<Rightarrow> u)),
         (''priority'', opt_int (kb_priority doc))]\<rparr>"

text \<open>
  \<open>RAGPipeline.index_knowledge_base\<close>. The rows it reads are the active ones; the new
  embedding references live in the session until the commit, so they reach the table only
  when the embedding call, the write to the index and the commit have all succeeded.
\<close>

definition index_knowledge_base ::
  "env \<Rightarrow> EmbeddingService \<Rightarrow> bool \<Rightarrow> world \<Rightarrow> (error + unit) \<times> world" where
  "index_knowledge_base e es force_refresh w =
     (let docs = filter kb_active (knowledge_base w)
      in if docs = [] then (Inr (), w)
         else
           let docs_to_index = filter (needs_index force_refresh) docs
           in if docs_to_index = [] then (Inr (), w)
              else
                case embed_batch e es (map kb_content docs_to_index) w of
                  (Inl err, w1) \<Rightarrow> (Inl err, w1)
                | (Inr embeddings, w1) \<Rightarrow>
                    (case add_documents e (map to_vector_doc docs_to_index) embeddings w1 of
                       (Inl err, w2) \<Rightarrow> (Inl err, w2)
                     | (Inr _, w2) \<Rightarrow>
                         (case db_commit e of
                            Some err \<Rightarrow> (Inl err, w2)
                          | None \<Rightarrow>
                              (Inr (),
                               w2\<lparr>knowledge_base :=
                                    map (\<lambda>doc. if kb_active doc \<and> needs_index force_refresh doc
                                               then doc\<lparr>kb_embedding_id := Some (kb_doc_id doc)\<rparr>
                                               else doc)
                                        (knowledge_base w2)\<rparr>))))"

text \<open>
  The query of \<open>RAGPipeline.classify_lead\<close>: the parts present, each behind its label,
  joined by newlines; the lead's name (or the empty string) when there is no part.
\<close>

definition query_parts :: "lead_data \<Rightarrow> py_dict \<Rightarrow> string list" where
  "query_parts lead source_meta =
     (if truthy (get_or (company lead) PNone)
      then [''Company: '' @ py_str (get_or (company lead) PNone)] else [])
     @ (if truthy (dict_get source_meta ''message'' PNone)
        then [''Message: '' @ py_str (dict_get source_meta ''message'' PNone)] else [])
     @ (if truthy (dict_get source_meta ''subject'' PNone)
        then [''Subject: '' @ py_str (dict_get source_meta ''subject'' PNone)] else [])"

text \<open>
  \<open>lead_data.get('source_metadata', {})\<close> followed by a \<open>.get\<close> on the result: the empty
  dictionary when the key is missing, an \<open>AttributeError\<close> when the value is \<open>None\<close>.
\<close>

definition source_meta_of :: "lead_data \<Rightarrow> error + py_dict" where
  "source_meta_of lead =
     (case source_metadata lead of
        None \<Rightarrow> Inr []
      | Some None \<Rightarrow> Inl AttributeError
      | Some (Some d) \<Rightarrow> Inr d)"

definition classify_query :: "lead_data \<Rightarrow> error + (py_val \<times> py_dict)" where
  "classify_query lead =
     (case source_meta_of lead of
        Inl err \<Rightarrow> Inl err
      | Inr source_meta \<Rightarrow>
          (let parts = query_parts lead source_meta
           in Inr (if parts \<noteq> [] then PStr (join [CHR 0x0A] parts)
                   else get_or (name lead) (PStr []),
                   source_meta)))"

record classification =
  cl_intent :: string
  cl_confidence :: real
  cl_reason :: string
  cl_retrieved_docs :: "string list"
  cl_context_snippets :: "string list"

text \<open>
  \<open>RAGPipeline.classify_lead\<close>. A query that is not a \<open>str\<close> (a lead with no part whose
  name is \<open>None\<close>) cannot be embedded nor lowercased: the call raises. The
  \<open>context_text\<close> the source builds is never used and is left out.
\<close>

definition classify_lead ::
  "env \<Rightarrow> EmbeddingService \<Rightarrow> lead_data \<Rightarrow> world \<Rightarrow> (error + classification) \<times> world" where
  "classify_lead e es lead w =
     (case classify_query lead of
        Inl err \<Rightarrow> (Inl err, w)
      | Inr (PStr query_text, source_meta) \<Rightarrow>
          (case embed e es query_text w of
             (Inl err, w1) \<Rightarrow> (Inl err, w1)
           | (Inr query_embedding, w1) \<Rightarrow>
               (case search e query_embedding 5 None w1 of
                  (Inl err, w2) \<Rightarrow> (Inl err, w2)
                | (Inr contexts, w2) \<Rightarrow>
                    (case classify_with_rules query_text contexts source_meta of
                       (intent, confidence, reason) \<Rightarrow>
                         (Inr \<lparr>cl_intent = intent,
                               cl_confidence = confidence,
                               cl_reason = reason,
                               cl_retrieved_docs = map doc_id contexts,
                               cl_context_snippets = map (\<lambda>ctx. take 200 (content ctx)) contexts\<rparr>,
                          w2))))
      | Inr (_, source_meta) \<Rightarrow> (Inl TypeError, w))"

text \<open>
  The query of \<open>RAGPipeline.retrieve_context_for_message\<close>: the seed of the intent, then
  the company when there is one. Joining a company that is not a \<open>str\<close> raises.
\<close>

definition intent_seed :: "string \<Rightarrow> string" where
  "intent_seed intent =
     (if intent = ''hot'' then ''pricing demo trial purchase''
      else if intent = ''warm'' then ''features benefits how it works''
      else ''introduction overview getting started'')"

definition message_query :: "lead_data \<Rightarrow> string \<Rightarrow> error + string" where
  "message_query lead intent =
     (if truthy (get_or (company lead) PNone)
      then (case get_or (company lead) PNone of
              PStr c \<Rightarrow> Inr (join '' '' [intent_seed intent, c])
            | _ \<Rightarrow> Inl TypeError)
      else Inr (join '' '' [intent_seed intent]))"

definition retrieve_context_for_message ::
  "env \<Rightarrow> EmbeddingService \<Rightarrow> lead_data \<Rightarrow> string \<Rightarrow> world
     \<Rightarrow> (error + retrieved_context list) \<times> world" where
  "retrieve_context_for_message e es lead intent w =
     (case message_query lead intent of
        Inl err \<Rightarrow> (Inl err, w)
      | Inr query_text \<Rightarrow>
          (case embed e es query_text w of
             (Inl err, w1) \<Rightarrow> (Inl err, w1)
           | (Inr query_embedding, w1) \<Rightarrow>
               search e query_embedding 3
                 (if intent = ''hot'' then Some [(''doc_type'', PStr ''faq'')] else None) w1))"

section \<open>message\_generator.py\<close>

subsection \<open>String operations\<close>

definition newline :: string where
  "newline = [CHR 0x0A]"

text \<open>
  The bullet of the context block is U+2022, outside the range of the model's characters;
  it is written as the single code 0x95 and occurs in the prompt only.
\<close>

definition bullet :: string where
  "bullet = [CHR 0x95]"

text \<open>The white space \<open>str.strip\<close> removes, among the code points 0..255.\<close>

definition is_space :: "char \<Rightarrow> bool" where
  "is_space c =
     (let n = (of_char c :: nat)
      in (9 \<le> n \<and> n \<le> 13) \<or> (28 \<le> n \<and> n \<le> 32) \<or> n = 133 \<or> n = 160)"

definition strip :: "string \<Rightarrow> string" where
  "strip s = rev (dropWhile is_space (rev (dropWhile is_space s)))"

text \<open>\<open>s.split(c)\<close> for a one-character separator.\<close>

fun split :: "char \<Rightarrow> string \<Rightarrow> string list" where
  "split c [] = [[]]"
| "split c (x # xs) =
     (if x = c then [] # split c xs
      else (case split c xs of
              [] \<Rightarrow> [[x]]
            | piece # pieces \<Rightarrow> (x # piece) # pieces))"

definition startswith :: "string \<Rightarrow> string \<Rightarrow> bool" where
  "startswith s p = prefix p s"

text \<open>\<open>s.replace(old, '')\<close> for a non-empty \<open>old\<close>: every occurrence, left to right.\<close>

function remove_all :: "string \<Rightarrow> string \<Rightarrow> string" where
  "remove_all old s =
     (if old \<noteq> [] \<and> prefix old s then remove_all old (drop (length old) s)
      else (case s of [] \<Rightarrow> [] | x # xs \<Rightarrow> x # remove_all old xs))"
  by pat_completeness auto
termination
  by (relation "measure (\<lambda>(old, s). length s)") (auto simp: prefix_def)

declare remove_all.simps [simp del]

text \<open>
  \<open>round(x, 2)\<close>: the nearest multiple of 0.01, a tie going to the even one
  (\<open>round(0.125, 2)\<close> is 0.12).
\<close>

definition round_half_even :: "real \<Rightarrow> int" where
  "round_half_even y =
     (let f = \<lfloor>y\<rfloor>; d = y - of_int f
      in if d < 1 / 2 then f
         else if d > 1 / 2 then f + 1
         else if even f then f else f + 1)"

definition round2 :: "real \<Rightarrow> real" where
  "round2 x = of_int (round_half_even (x * 100)) / 100"

subsection \<open>Templates\<close>

definition hot_system_prompt :: string where
  "hot_system_prompt = join newline
     [''You are a helpful sales assistant for BizPilot, a lead management automation platform.'',
      [],
      ''The lead has shown HIGH purchase intent. Your goal is to:'',
      ''1. Acknowledge their specific interest/question'',
      ''2. Provide relevant information from the knowledge base'',
      ''3. Make it easy for them to take the next step (demo, trial, purchase)'',
      [],
      ''Tone: Professional but friendly. Direct and action-oriented.'',
      ''Length: 80-120 words max.'',
      ''Include: Clear CTA with specific next step.'']"

definition hot_user_template :: "string \<Rightarrow> string \<Rightarrow> string \<Rightarrow> string \<Rightarrow> string \<Rightarrow> string" where
  "hot_user_template n c em msg ctx = join newline
     [''Lead Information:'',
      ''Name: '' @ n,
      ''Company: '' @ c,
      ''Email: '' @ em,
      ''Message: '' @ msg,
      [],
      ''Context from our knowledge base:'',
      ctx,
      [],
      ''Generate a personalized follow-up email that:'',
      ''1. References their specific inquiry'',
      ''2. Uses the provided context to answer their needs'',
      ''3. Includes a clear call-to-action'',
      [],
      ''Format:'',
      ''SUBJECT: [subject line]'',
      ''BODY: [email body]'']"

definition warm_system_prompt :: string where
  "warm_system_prompt = join newline
     [''You are a helpful sales assistant for BizPilot.'',
      [],
      ''This lead is INTERESTED but needs nurturing. Your goal is to:'',
      ''1. Acknowledge their interest'',
      ''2. Educate them on how BizPilot solves their problem'',
      ''3. Build trust with relevant information'',
      [],
      ''Tone: Helpful and consultative, not pushy.'',
      ''Length: 100-150 words.'',
      ''Include: Soft CTA (learn more, see examples, etc.)'']"

definition warm_user_template :: "string \<Rightarrow> string \<Rightarrow> string \<Rightarrow> string \<Rightarrow> string \<Rightarrow> string" where
  "warm_user_template n c em msg ctx = join newline
     [''Lead Information:'',
      ''Name: '' @ n,
      ''Company: '' @ c,
      ''Message: '' @ msg,
      [],
      ''Relevant information:'',
      ctx,
      [],
      ''Write a nurturing follow-up that:'',
      ''1. Addresses their inquiry'',
      ''2. Provides helpful context'',
      ''3. Invites them to learn more'',
      [],
      ''Format:'',
      ''SUBJECT: [subject line]'',
      ''BODY: [email body]'']"

definition cold_system_prompt :: string where
  "cold_system_prompt = join newline
     [''You are a helpful assistant for BizPilot.'',
      [],
      ''This lead is EARLY STAGE. Your goal is to:'',
      ''1. Acknowledge their inquiry professionally'',
      ''2. Provide a brief introduction to BizPilot'',
      ''3. Offer resources'',
      [],
      ''Tone: Professional and informative, no hard sell.'',
      ''Length: 60-100 words.'',
      ''Include: Resource offer (guide, case study, etc.)'']"

definition cold_user_template :: "string \<Rightarrow> string \<Rightarrow> string \<Rightarrow> string \<Rightarrow> string \<Rightarrow> string" where
  "cold_user_template n c em msg ctx = join newline
     [''Lead Information:'',
      ''Name: '' @ n,
      ''Email: '' @ em,
      ''Message: '' @ msg,
      [],
      ''Company info:'',
      ctx,
      [],
      ''Write a brief, professional introduction email.'',
      [],
      ''Format:'',
      ''SUBJECT: [subject line]'',
      ''BODY: [email body]'']"

definition hot_fallback_subject :: string where
  "hot_fallback_subject = ''Re: Your BizPilot inquiry''"

definition hot_fallback_body :: "string \<Rightarrow> string" where
  "hot_fallback_body n = join newline
     [''Hi '' @ n @ '','',
      [],
      ''Thanks for your interest in BizPilot!'',
      [],
      ''I'' @ [CHR 0x27] @ ''d love to show you how we can help automate your lead management and boost conversions.'',
      [],
      ''Are you available for a quick 15-minute demo this week?'',
      [],
      ''Best,'',
      ''BizPilot Team'']"

definition warm_fallback_subject :: string where
  "warm_fallback_subject = ''Learn more about BizPilot''"

definition warm_fallback_body :: "string \<Rightarrow> string" where
  "warm_fallback_body n = join newline
     [''Hi '' @ n @ '','',
      [],
      ''Thanks for reaching out!'',
      [],
      ''BizPilot helps small businesses automate lead triage and follow-ups, typically improving conversion rates by 15-25%.'',
      [],
      ''I'' @ [CHR 0x27] @ ''d be happy to share more details about how it works. Would you like to see a quick demo?'',
      [],
      ''Best,'',
      ''BizPilot Team'']"

definition cold_fallback_subject :: string where
  "cold_fallback_subject = ''Nice to meet you!''"

definition cold_fallback_body :: "string \<Rightarrow> string" where
  "cold_fallback_body n = join newline
     [''Hi '' @ n @ '','',
      [],
      ''Thanks for your inquiry!'',
      [],
      ''BizPilot is a lead management automation platform for small businesses. We'' @ [CHR 0x27] @ ''d be happy to share more information.'',
      [],
      ''Feel free to reply if you'' @ [CHR 0x27] @ ''d like to learn more!'',
      [],
      ''Best,'',
      ''BizPilot Team'']"

record template =
  t_name :: string
  system_prompt :: string
  user_template :: "string \<Rightarrow> string \<Rightarrow> string \<Rightarrow> string \<Rightarrow> string \<Rightarrow> string"

text \<open>\<open>self.templates.get(intent, self.templates['cold'])\<close>\<close>

definition templates_get :: "string \<Rightarrow> template" where
  "templates_get intent =
     (if intent = ''hot''
      then \<lparr>t_name = ''high_intent_followup'', system_prompt = hot_system_prompt,
            user_template = hot_user_template\<rparr>
      else if intent = ''warm''
      then \<lparr>t_name = ''nurture_followup'', system_prompt = warm_system_prompt,
            user_template = warm_user_template\<rparr>
      else \<lparr>t_name = ''introduction'', system_prompt = cold_system_prompt,
            user_template = cold_user_template\<rparr>)"

subsection \<open>The generator\<close>

record MessageGenerator =
  mg_model_version :: string
  rag_pipeline :: EmbeddingService

record message =
  subject :: string
  body :: string
  channel :: string
  confidence :: real
  template_used :: string
  context_used :: "string list"
  context_snippets :: "string list"
  model_version :: string
  latency_ms :: int
  tokens_used :: int

text \<open>
  The dictionary \<open>generate_message\<close> returns, key by key: both of its return statements
  build these ten keys and no other.
\<close>

datatype field = FStr string | FReal real | FInt int | FList "string list"

definition as_dict :: "message \<Rightarrow> (string \<times> field) list" where
  "as_dict m =
     [(''subject'', FStr (subject m)),
      (''body'', FStr (body m)),
      (''channel'', FStr (channel m)),
      (''confidence'', FReal (confidence m)),
      (''template_used'', FStr (template_used m)),
      (''context_used'', FList (context_used m)),
      (''context_snippets'', FList (context_snippets m)),
      (''model_version'', FStr (model_version m)),
      (''latency_ms'', FInt (latency_ms m)),
      (''tokens_used'', FInt (tokens_used m))]"

text \<open>\<open>MessageGenerator._parse_response\<close>: the loop over the lines, then the defaults.\<close>

fun parse_lines :: "string list \<Rightarrow> string \<times> string list \<times> bool \<Rightarrow> string \<times> string list \<times> bool" where
  "parse_lines [] st = st"
| "parse_lines (line # rest) (subj, body_lines, in_body) =
     (if startswith (strip line) ''SUBJECT:''
      then parse_lines rest (strip (remove_all ''SUBJECT:'' line), body_lines, in_body)
      else if startswith (strip line) ''BODY:''
      then (let body_start = strip (remove_all ''BODY:'' line)
            in parse_lines rest
                 (subj, if body_start \<noteq> [] then body_lines @ [body_start] else body_lines, True))
      else if in_body then parse_lines rest (subj, body_lines @ [line], in_body)
      else parse_lines rest (subj, body_lines, in_body))"

definition parse_response :: "string \<Rightarrow> string \<times> string" where
  "parse_response text =
     (case parse_lines (split (CHR 0x0A) text) ([], [], False) of
        (subj, body_lines, _) \<Rightarrow>
          (let b = strip (join newline body_lines)
           in (if subj = [] then ''Re: Your inquiry about BizPilot'' else subj,
               if b = [] then text else b)))"

text \<open>\<open>intent_weights.get(intent, 0.6)\<close>\<close>

definition intent_weight :: "string \<Rightarrow> real" where
  "intent_weight intent =
     (if intent = ''hot'' then 1.0
      else if intent = ''warm'' then 0.85
      else if intent = ''cold'' then 0.7
      else 0.6)"

text \<open>
  \<open>MessageGenerator._calculate_confidence\<close>, over the reals: the average, the product
  and the cap are exact here, where the code rounds each to a binary float. The two agree
  whenever the exact product is not within a float rounding of a tie between two
  hundredths (at score 0.25 and intent cold the exact product 0.175 is such a tie: the
  model rounds it to 0.18, the code, whose 0.7 lies just below 7/10, to 0.17).
\<close>

definition calculate_confidence :: "retrieved_context list \<Rightarrow> string \<Rightarrow> real" where
  "calculate_confidence contexts intent =
     (if contexts = [] then 0.5
      else
        let avg_similarity = sum_list (map score contexts) / real (length contexts);
            intent_mult = intent_weight intent
        in round2 (min (avg_similarity * intent_mult) 0.95))"

text \<open>\<open>MessageGenerator._generate_fallback_message\<close>\<close>

definition generate_fallback_message :: "lead_data \<Rightarrow> string \<Rightarrow> message" where
  "generate_fallback_message lead intent =
     (let n = py_str (get_or (name lead) (PStr ''there''));
          tpl = (if intent = ''hot'' then (hot_fallback_subject, hot_fallback_body n)
                 else if intent = ''warm'' then (warm_fallback_subject, warm_fallback_body n)
                 else (cold_fallback_subject, cold_fallback_body n))
      in \<lparr>subject = fst tpl,
          body = snd tpl,
          channel = ''email'',
          confidence = 0.50,
          template_used = ''fallback'',
          context_used = [],
          context_snippets = [],
          model_version = ''fallback'',
          latency_ms = 0,
          tokens_used = 0\<rparr>)"

text \<open>The cost \<open>_log_model_call\<close> derives from a token count.\<close>

definition cost_usd :: "int \<Rightarrow> real" where
  "cost_usd tokens = (of_int tokens / 1000) * 0.01"

text \<open>
  \<open>MessageGenerator._log_model_call\<close>: one row of the audit table, written by a commit
  that may fail.
\<close>

definition log_model_call ::
  "env \<Rightarrow> MessageGenerator \<Rightarrow> string \<Rightarrow> lead_data \<times> string \<Rightarrow> string \<times> string \<Rightarrow> int \<Rightarrow> int \<Rightarrow> real
     \<Rightarrow> world \<Rightarrow> (error + unit) \<times> world" where
  "log_model_call e mg operation input_data output_data latency tokens conf w =
     (case db_commit e of
        Some err \<Rightarrow> (Inl err, w)
      | None \<Rightarrow>
          (Inr (),
           w\<lparr>model_logs := model_logs w @
                [\<lparr>ml_model_version = mg_model_version mg,
                  ml_operation = operation,
                  ml_input_data = input_data,
                  ml_output_data = output_data,
                  ml_latency_ms = latency,
                  ml_tokens_used = tokens,
                  ml_cost_usd = cost_usd tokens,
                  ml_confidence_score = conf\<rparr>]\<rparr>))"

text \<open>The context block and the prompt, built before the \<open>try\<close>.\<close>

definition context_text :: "retrieved_context list \<Rightarrow> string" where
  "context_text contexts =
     join (newline @ newline) (map (\<lambda>ctx. bullet @ '' '' @ take 300 (content ctx)) (take 3 contexts))"

definition build_request ::
  "MessageGenerator \<Rightarrow> lead_data \<Rightarrow> string \<Rightarrow> retrieved_context list \<Rightarrow> error + request" where
  "build_request mg lead intent contexts =
     (case source_meta_of lead of
        Inl err \<Rightarrow> Inl err
      | Inr source_meta \<Rightarrow>
          Inr \<lparr>rq_model = mg_model_version mg,
               rq_max_tokens = 1000,
               rq_system = system_prompt (templates_get intent),
               rq_user =
                 user_template (templates_get intent)
                   (py_str (get_or (name lead) (PStr ''there'')))
                   (py_str (get_or (company lead) (PStr ''your company'')))
                   (py_str (get_or (email lead) (PStr [])))
                   (py_str (dict_get source_meta ''message'' (PStr ''their inquiry'')))
                   (context_text contexts)\<rparr>)"

text \<open>
  The body of the \<open>try\<close>: the backend call, the first content block, the parse, the
  confidence, the audit row, the result. Any failure in it leaves through \<open>Inl\<close>.
\<close>

definition try_generate ::
  "env \<Rightarrow> MessageGenerator \<Rightarrow> lead_data \<Rightarrow> string \<Rightarrow> retrieved_context list \<Rightarrow> request
     \<Rightarrow> world \<Rightarrow> (error + message) \<times> world" where
  "try_generate e mg lead intent contexts rq w =
     (case messages_create e rq of
        Inl err \<Rightarrow> (Inl err, w)
      | Inr rsp \<Rightarrow>
          (case rs_content rsp of
             [] \<Rightarrow> (Inl IndexError, w)
           | text # _ \<Rightarrow>
               (case parse_response text of
                  (subj, bdy) \<Rightarrow>
                    (let conf = calculate_confidence contexts intent;
                         latency = elapsed_ms e;
                         tokens = rs_input_tokens rsp + rs_output_tokens rsp
                     in case log_model_call e mg ''generate_message'' (lead, intent) (subj, bdy)
                               latency tokens conf w of
                          (Inl err, w') \<Rightarrow> (Inl err, w')
                        | (Inr _, w') \<Rightarrow>
                            (Inr \<lparr>subject = subj,
                                  body = bdy,
                                  channel = ''email'',
                                  confidence = conf,
                                  template_used = t_name (templates_get intent),
                                  context_used = map doc_id contexts,
                                  context_snippets = map (\<lambda>ctx. take 200 (content ctx)) contexts,
                                  model_version = mg_model_version mg,
                                  latency_ms = latency,
                                  tokens_used = tokens\<rparr>,
                             w')))))"

text \<open>
  \<open>MessageGenerator.generate_message\<close>. Retrieval and the prompt come before the
  \<open>try\<close>, so their failures reach the caller; \<open>except Exception\<close> turns every failure
  of the \<open>try\<close> body into the fallback message.
\<close>

definition obtain_contexts ::
  "env \<Rightarrow> MessageGenerator \<Rightarrow> lead_data \<Rightarrow> string \<Rightarrow> retrieved_context list option
     \<Rightarrow> world \<Rightarrow> (error + retrieved_context list) \<times> world" where
  "obtain_contexts e mg lead intent retrieved_contexts w =
     (case retrieved_contexts of
        None \<Rightarrow> retrieve_context_for_message e (rag_pipeline mg) lead intent w
      | Some given \<Rightarrow> (Inr given, w))"

definition generate_message ::
  "env \<Rightarrow> MessageGenerator \<Rightarrow> lead_data \<Rightarrow> string \<Rightarrow> retrieved_context list option
     \<Rightarrow> world \<Rightarrow> (error + message) \<times> world" where
  "generate_message e mg lead intent retrieved_contexts w =
     (case obtain_contexts e mg lead intent retrieved_contexts w of
        (Inl err, w1) \<Rightarrow> (Inl err, w1)
      | (Inr contexts, w1) \<Rightarrow>
          (case build_request mg lead intent contexts of
             Inl err \<Rightarrow> (Inl err, w1)
           | Inr rq \<Rightarrow>
               (case try_generate e mg lead intent contexts rq w1 of
                  (Inl err, w2) \<Rightarrow> (Inr (generate_fallback_message lead intent), w2)
                | (Inr msg, w2) \<Rightarrow> (Inr msg, w2))))"

section \<open>A reference vector index\<close>

text \<open>
  Modelled from the spec: the vector index behind the Knowledge Store (section 4.2), which
  the repository takes from the external chromadb library. The index is keyed by document
  id: writing adds one entry per document whose id the collection does not hold yet, and an
  id already held keeps the entry it has. A query keeps the entries the metadata filter
  admits, orders them by distance to the query vector (stably, so ties keep insertion
  order) and returns the first \<open>n_results\<close> with their distances. The metric is a
  parameter.
\<close>

fun put_new :: "vs_entry list \<Rightarrow> vs_entry list \<Rightarrow> vs_entry list" where
  "put_new coll [] = coll"
| "put_new coll (en # rest) =
     put_new (if entry_id en \<in> set (map entry_id coll) then coll else coll @ [en]) rest"

definition ref_add ::
  "vs_entry list \<Rightarrow> string list \<Rightarrow> real list list \<Rightarrow> string list \<Rightarrow> py_dict list
     \<Rightarrow> error + vs_entry list" where
  "ref_add coll ids embeddings documents metadatas =
     (if length embeddings = length ids \<and> length documents = length ids
         \<and> length metadatas = length ids
      then Inr (put_new coll
                  (map (\<lambda>(i, v, d, m).
                          \<lparr>entry_id = i, entry_embedding = v, entry_document = d,
                           entry_metadata = m\<rparr>)
                       (zip ids (zip embeddings (zip documents metadatas)))))
      else Inl ValueError)"

definition admits :: "py_dict option \<Rightarrow> vs_entry \<Rightarrow> bool" where
  "admits flt en =
     (case flt of
        None \<Rightarrow> True
      | Some conds \<Rightarrow> list_all (\<lambda>(k, v). map_of (entry_metadata en) k = Some v) conds)"

definition ref_query ::
  "(real list \<Rightarrow> real list \<Rightarrow> real) \<Rightarrow> vs_entry list \<Rightarrow> real list \<Rightarrow> nat \<Rightarrow> py_dict option
     \<Rightarrow> error + (string \<times> string \<times> real \<times> py_dict) list" where
  "ref_query metric coll q n flt =
     Inr (take n (sort_key (\<lambda>(i, d, x, m). x)
                    (map (\<lambda>en. (entry_id en, entry_document en, metric q (entry_embedding en),
                                entry_metadata en))
                         (filter (admits flt) coll))))"

text \<open>The metric used where a run needs one: 0 between equal vectors, 1 otherwise.\<close>

definition discrete_distance :: "real list \<Rightarrow> real list \<Rightarrow> real" where
  "discrete_distance u v = (if u = v then 0 else 1)"

text \<open>
  An environment over the reference index: every text is embedded by \<open>vec\<close> whatever the
  backend, the generative backend answers \<open>reply\<close>, and commits succeed.
\<close>

definition ref_env :: "(string \<Rightarrow> string \<Rightarrow> real list) \<Rightarrow> (request \<Rightarrow> error + response) \<Rightarrow> env" where
  "ref_env vec reply =
     \<lparr>st_load = (\<lambda>_. None),
      openai_init = None,
      st_encode = (\<lambda>m texts. Inr (map (vec m) texts)),
      openai_embeddings = (\<lambda>texts. Inr (map (vec ''openai'') texts)),
      coll_add = ref_add,
      coll_query = ref_query discrete_distance,
      db_commit = None,
      messages_create = reply,
      elapsed_ms = 0\<rparr>"

text \<open>
  What happens to the knowledge base outside the pipeline: an administrator clears the
  active flag of a document.
\<close>

definition deactivate :: "int \<Rightarrow> world \<Rightarrow> world" where
  "deactivate i w =
     w\<lparr>knowledge_base :=
         map (\<lambda>doc. if kb_id doc = i then doc\<lparr>kb_active := False\<rparr> else doc) (knowledge_base w)\<rparr>"

section \<open>Predicates of the statements\<close>

text \<open>Some phrase of the list occurs in the lowercased query.\<close>

definition has_signal :: "string list \<Rightarrow> string \<Rightarrow> bool" where
  "has_signal signals query = list_ex (\<lambda>s. py_in s (lower query)) signals"

text \<open>
  The call to the generative backend fails: it raises, or its answer has no content block
  to read.
\<close>

definition backend_fails :: "env \<Rightarrow> request \<Rightarrow> bool" where
  "backend_fails e rq =
     (case messages_create e rq of Inl _ \<Rightarrow> True | Inr rsp \<Rightarrow> rs_content rsp = [])"

text \<open>The documents an unforced indexing run would skip: every active one has a reference.\<close>

definition all_indexed :: "world \<Rightarrow> bool" where
  "all_indexed w = list_all (\<lambda>doc. is_set (kb_embedding_id doc)) (filter kb_active (knowledge_base w))"

section \<open>Inputs of the runs\<close>

text \<open>The lead and the generator of the demonstration at the end of message\_generator.py.\<close>

definition local_service :: EmbeddingService where
  "local_service = \<lparr>model_name = ''all-MiniLM-L6-v2'', uses_client = False\<rparr>"


definition sample_generator :: MessageGenerator where
  "sample_generator =
     \<lparr>mg_model_version = ''claude-sonnet-4-5-20250929'', rag_pipeline = local_service\<rparr>"

definition sample_lead :: lead_data where
  "sample_lead =
     \<lparr>name = Some (PStr ''Sarah Johnson''),
      company = Some (PStr ''TechStart Inc''),
      email = Some (PStr ''sarah@techstart.com''),
      source_metadata =
        Some (Some [(''message'', PStr ''I saw your product and want to schedule a demo.'')])\<rparr>"


text \<open>A lead of which the name and the company are known, with an empty form.\<close>

definition company_lead :: "string \<Rightarrow> lead_data" where
  "company_lead cn =
     \<lparr>name = Some (PStr ''Ann Lee''), company = Some (PStr cn), email = None,
      source_metadata = Some (Some [])\<rparr>"

definition fresh_world :: world where
  "fresh_world = \<lparr>knowledge_base = [], model_logs = [], collection = [], calls = []\<rparr>"

text \<open>Two backends of the same dimension that embed every text differently.\<close>

definition two_backends :: "string \<Rightarrow> string \<Rightarrow> real list" where
  "two_backends m text = (if m = ''openai'' then [0, 1] else [1, 0])"

text \<open>An environment whose generative backend times out, and one that answers.\<close>

definition timeout_env :: env where
  "timeout_env = ref_env two_backends (\<lambda>_. Inl GenerationBackendError)"

definition sample_response :: response where
  "sample_response =
     \<lparr>rs_content = [''SUBJECT: Your demo'' @ newline @ ''BODY: Hi Sarah,'' @ newline @ ''see you soon.''],
      rs_input_tokens = 400,
      rs_output_tokens = 100\<rparr>"

definition reply_env :: env where
  "reply_env = ref_env two_backends (\<lambda>_. Inr sample_response)"

text \<open>The first document of the sample knowledge base, not yet indexed.\<close>

definition sample_doc :: KnowledgeBase where
  "sample_doc =
     \<lparr>kb_id = 1, kb_title = Some ''Product Overview'',
      kb_content = ''BizPilot automates lead management and follow-up for small businesses.'',
      kb_doc_type = Some ''product_page'', kb_source_url = None, kb_embedding_id = None,
      kb_priority = Some 0, kb_active = True\<rparr>"

text \<open>
  A knowledge base with the sample document, before any indexing; the same after the local
  backend has indexed it and a second document has been added.
\<close>

definition unindexed_world :: world where
  "unindexed_world = fresh_world\<lparr>knowledge_base := [sample_doc]\<rparr>"


definition indexed_world :: world where
  "indexed_world = snd (index_knowledge_base timeout_env local_service False unindexed_world)"





section \<open>Properties of the rule classifier\<close>

text \<open>
  C9. Whatever the query, the contexts and the form metadata, the rule classifier answers
  hot, warm or cold, never unqualified, and its confidence is one of the five literals
  0.50, 0.60, 0.65, 0.70 and 0.85, so it lies between 0 and 1.
\<close>

theorem classify_with_rules_range:
  "fst (classify_with_rules query contexts source_meta) \<in> {''hot'', ''warm'', ''cold''}
   \<and> fst (classify_with_rules query contexts source_meta) \<noteq> ''unqualified''
   \<and> fst (snd (classify_with_rules query contexts source_meta)) \<in> {0.50, 0.60, 0.65, 0.70, 0.85}
   \<and> 0 \<le> fst (snd (classify_with_rules query contexts source_meta))
   \<and> fst (snd (classify_with_rules query contexts source_meta)) \<le> 1"
  by (simp add: classify_with_rules_def Let_def)

subsection \<open>Lists of strings\<close>

lemma sublist_join: "x \<in> set xs \<Longrightarrow> sublist x (join sep xs)"
proof (induction sep xs rule: join.induct)
  case (3 sep p q ps)
  show ?case
  proof (cases "x = p")
    case True
    then show ?thesis by simp
  next
    case False
    with 3 have "sublist x (join sep (q # ps))" by simp
    then obtain a b where "join sep (q # ps) = a @ x @ b" by (auto simp: sublist_def)
    then have "join sep (p # q # ps) = (p @ sep @ a) @ x @ b" by simp
    then show ?thesis unfolding sublist_def by blast
  qed
qed simp_all

lemma sublist_between: "sublist x m \<Longrightarrow> sublist x (a @ m @ b)"
proof -
  assume "sublist x m"
  then obtain p s where "m = p @ x @ s" by (auto simp: sublist_def)
  then have "a @ m @ b = (a @ p) @ x @ (s @ b)" by simp
  then show ?thesis unfolding sublist_def by blast
qed

lemma reason_lists_matched:
  assumes "s \<in> set signals" "py_in s ql"
  shows "py_in (repr_str s) (pre @ repr_list (matched signals ql))"
proof -
  from assms have "repr_str s \<in> set (map repr_str (matched signals ql))"
    by (simp add: matched_def)
  then have "sublist (repr_str s) (join '', '' (map repr_str (matched signals ql)))"
    by (rule sublist_join)
  then have "sublist (repr_str s) ((pre @ ''['') @ join '', '' (map repr_str (matched signals ql)) @ '']'')"
    by (rule sublist_between)
  then show ?thesis by (simp add: py_in_def repr_list_def)
qed

subsection \<open>The cascade\<close>

text \<open>
  C1. The classifier is an ordered cascade over the lowercased query, the first rule that
  matches deciding: a query with a hot phrase is hot with confidence 0.85 and its reason
  lists every matched phrase; else one with a warm phrase is warm with 0.70; else one
  shorter than 20 characters is cold with 0.60; else, when the first retrieved context's
  similarity exceeds 0.70, warm with 0.65; else cold with 0.50.
\<close>

theorem classify_cascade:
  "(has_signal hot_signals q \<longrightarrow>
      classify_with_rules q cs m =
        (''hot'', 0.85, ''High-intent keywords detected: '' @ repr_list (matched hot_signals (lower q)))
      \<and> (\<forall>s \<in> set hot_signals. py_in s (lower q) \<longrightarrow>
            py_in (repr_str s) (snd (snd (classify_with_rules q cs m)))))
   \<and> (\<not> has_signal hot_signals q \<and> has_signal warm_signals q \<longrightarrow>
      classify_with_rules q cs m =
        (''warm'', 0.70, ''Interest indicators found: '' @ repr_list (matched warm_signals (lower q))))
   \<and> (\<not> has_signal hot_signals q \<and> \<not> has_signal warm_signals q \<and> length q < 20 \<longrightarrow>
      classify_with_rules q cs m = (''cold'', 0.60, ''Brief inquiry, needs more context''))
   \<and> (\<not> has_signal hot_signals q \<and> \<not> has_signal warm_signals q \<and> \<not> length q < 20
        \<and> cs \<noteq> [] \<and> score (hd cs) > 0.70 \<longrightarrow>
      classify_with_rules q cs m =
        (''warm'', 0.65,
         ''Relevant to our knowledge base: '' @ py_str (dict_get (metadata (hd cs)) ''title'' (PStr ''N/A''))))
   \<and> (\<not> has_signal hot_signals q \<and> \<not> has_signal warm_signals q \<and> \<not> length q < 20
        \<and> \<not> (cs \<noteq> [] \<and> score (hd cs) > 0.70) \<longrightarrow>
      classify_with_rules q cs m = (''cold'', 0.50, ''Standard inquiry, no strong signals''))"
proof (intro conjI impI ballI)
  assume h: "has_signal hot_signals q"
  then show eq: "classify_with_rules q cs m =
        (''hot'', 0.85, ''High-intent keywords detected: '' @ repr_list (matched hot_signals (lower q)))"
    by (simp add: classify_with_rules_def has_signal_def Let_def)
  fix s assume "s \<in> set hot_signals" "py_in s (lower q)"
  then show "py_in (repr_str s) (snd (snd (classify_with_rules q cs m)))"
    unfolding eq snd_conv by (rule reason_lists_matched)
qed (simp_all add: classify_with_rules_def has_signal_def Let_def)


theorem classify_cascade_witness:
  "classify_with_rules ''I want a demo ASAP'' [] [] =
     (''hot'', 0.85, ''High-intent keywords detected: ['' @ [CHR 0x27] @ ''asap'' @ [CHR 0x27]
                       @ '', '' @ [CHR 0x27] @ ''demo'' @ [CHR 0x27] @ '']'')
   \<and> py_in (repr_str ''demo'') (snd (snd (classify_with_rules ''I want a demo ASAP'' [] [])))
   \<and> classify_with_rules ''I am interested in your product'' [] [] =
     (''warm'', 0.70, ''Interest indicators found: ['' @ [CHR 0x27] @ ''interested'' @ [CHR 0x27] @ '']'')
   \<and> classify_with_rules ''hi'' [] [] = (''cold'', 0.60, ''Brief inquiry, needs more context'')
   \<and> classify_with_rules ''Please call me back tomorrow morning''
        [\<lparr>doc_id = ''kb_1'', content = ''Product Overview text'', score = 0.9,
          metadata = [(''title'', PStr ''Product Overview'')]\<rparr>] [] =
     (''warm'', 0.65, ''Relevant to our knowledge base: Product Overview'')
   \<and> classify_with_rules ''Please call me back tomorrow morning'' [] [] =
     (''cold'', 0.50, ''Standard inquiry, no strong signals'')"
proof -
  let ?q1 = "''I want a demo ASAP''"
  let ?q2 = "''I am interested in your product''"
  let ?q4 = "''Please call me back tomorrow morning''"
  let ?c = "\<lparr>doc_id = ''kb_1'', content = ''Product Overview text'', score = 0.9,
          metadata = [(''title'', PStr ''Product Overview'')]\<rparr>"
  have h1: "has_signal hot_signals ?q1" by code_simp
  have m1: "matched hot_signals (lower ?q1) = [''asap'', ''demo'']" by code_simp
  have d1: "''demo'' \<in> set hot_signals \<and> py_in ''demo'' (lower ?q1)" by code_simp
  have h2: "\<not> has_signal hot_signals ?q2 \<and> has_signal warm_signals ?q2" by code_simp
  have m2: "matched warm_signals (lower ?q2) = [''interested'']" by code_simp
  have h3: "\<not> has_signal hot_signals ''hi'' \<and> \<not> has_signal warm_signals ''hi'' \<and> length ''hi'' < 20"
    by code_simp
  have h4: "\<not> has_signal hot_signals ?q4 \<and> \<not> has_signal warm_signals ?q4 \<and> \<not> length ?q4 < 20"
    by code_simp
  have h4c: "[?c] \<noteq> [] \<and> score (hd [?c]) > 0.70" by simp
  have h5c: "\<not> (([] :: retrieved_context list) \<noteq> [] \<and> score (hd []) > 0.70)" by simp
  have t4: "py_str (dict_get (metadata (hd [?c])) ''title'' (PStr ''N/A'')) = ''Product Overview''"
    by (simp add: dict_get_def)
  note c1 = classify_cascade [of ?q1 "[]" "[]"]
  note c2 = classify_cascade [of ?q2 "[]" "[]"]
  note c3 = classify_cascade [of "''hi''" "[]" "[]"]
  note c4 = classify_cascade [of ?q4 "[?c]" "[]"]
  note c5 = classify_cascade [of ?q4 "[]" "[]"]
  have r1: "classify_with_rules ?q1 [] [] =
     (''hot'', 0.85, ''High-intent keywords detected: '' @ repr_list [''asap'', ''demo''])"
    using c1 h1 m1 by simp
  have r1b: "py_in (repr_str ''demo'') (snd (snd (classify_with_rules ?q1 [] [])))"
    using c1 h1 d1 by blast
  have r2: "classify_with_rules ?q2 [] [] =
     (''warm'', 0.70, ''Interest indicators found: '' @ repr_list [''interested''])"
    using c2 h2 m2 by simp
  have r3: "classify_with_rules ''hi'' [] [] = (''cold'', 0.60, ''Brief inquiry, needs more context'')"
    using c3 h3 by blast
  have r4: "classify_with_rules ?q4 [?c] [] =
     (''warm'', 0.65, ''Relevant to our knowledge base: '' @ ''Product Overview'')"
    using c4 h4 h4c t4 by simp
  have r5: "classify_with_rules ?q4 [] [] = (''cold'', 0.50, ''Standard inquiry, no strong signals'')"
    using c5 h4 h5c by blast
  show ?thesis
    using r1 r1b r2 r3 r4 r5 by (simp add: repr_list_def repr_str_def)
qed

section \<open>Properties of indexing\<close>

text \<open>
  C7. Indexing is idempotent when not forced: when every active document already carries
  an embedding reference, the run computes no embedding (the request log stays as it was)
  and leaves the documents' references and the contents of the vector index unchanged.
\<close>

theorem index_unforced_idempotent:
  "all_indexed w \<Longrightarrow> index_knowledge_base e es False w = (Inr (), w)"
proof -
  assume a: "all_indexed w"
  have "filter (needs_index False) (filter kb_active (knowledge_base w)) = []"
    using a by (auto simp: all_indexed_def needs_index_def list_all_iff filter_empty_conv)
  then show ?thesis
    by (simp add: index_knowledge_base_def Let_def)
qed

theorem index_unforced_idempotent_witness:
  "index_knowledge_base (ref_env (\<lambda>_ _. [1, 0]) (\<lambda>_. Inl GenerationBackendError))
      \<lparr>model_name = ''all-MiniLM-L6-v2'', uses_client = False\<rparr> False
      \<lparr>knowledge_base =
         [\<lparr>kb_id = 1, kb_title = Some ''Demo Request'', kb_content = ''Book a demo'',
           kb_doc_type = Some ''faq'', kb_source_url = None, kb_embedding_id = Some ''kb_1'',
           kb_priority = Some 0, kb_active = True\<rparr>],
       model_logs = [],
       collection =
         [\<lparr>entry_id = ''kb_1'', entry_embedding = [1, 0], entry_document = ''Book a demo'',
           entry_metadata = [(''title'', PStr ''Demo Request'')]\<rparr>],
       calls = []\<rparr>
   = (Inr (),
      \<lparr>knowledge_base =
         [\<lparr>kb_id = 1, kb_title = Some ''Demo Request'', kb_content = ''Book a demo'',
           kb_doc_type = Some ''faq'', kb_source_url = None, kb_embedding_id = Some ''kb_1'',
           kb_priority = Some 0, kb_active = True\<rparr>],
       model_logs = [],
       collection =
         [\<lparr>entry_id = ''kb_1'', entry_embedding = [1, 0], entry_document = ''Book a demo'',
           entry_metadata = [(''title'', PStr ''Demo Request'')]\<rparr>],
       calls = []\<rparr>)"
  by (rule index_unforced_idempotent) (simp add: all_indexed_def is_set_def)

section \<open>Properties of the generation confidence\<close>

lemma round_half_even_le: "y \<le> of_int k \<Longrightarrow> round_half_even y \<le> k"
proof -
  assume a: "y \<le> of_int k"
  then have fk: "\<lfloor>y\<rfloor> \<le> k" by (simp add: floor_le_iff)
  show ?thesis
  proof (cases "\<lfloor>y\<rfloor> = k")
    case True
    then have "y - of_int \<lfloor>y\<rfloor> \<le> 0" using a by simp
    then show ?thesis using True by (simp add: round_half_even_def Let_def)
  next
    case False
    with fk have "\<lfloor>y\<rfloor> + 1 \<le> k" by simp
    then show ?thesis using fk by (simp add: round_half_even_def Let_def)
  qed
qed

lemma round_half_even_ge: "of_int k \<le> y \<Longrightarrow> k \<le> round_half_even y"
proof -
  assume "of_int k \<le> y"
  then have "k \<le> \<lfloor>y\<rfloor>" by (simp add: le_floor_iff)
  then show ?thesis by (simp add: round_half_even_def Let_def)
qed

lemma calculate_confidence_empty: "calculate_confidence [] intent = 0.5"
  by (simp add: calculate_confidence_def)

lemma calculate_confidence_formula:
  "contexts \<noteq> [] \<Longrightarrow>
   calculate_confidence contexts intent =
     round2 (min (sum_list (map score contexts) / real (length contexts) * intent_weight intent) 0.95)"
  by (simp add: calculate_confidence_def Let_def)

lemma calculate_confidence_upper: "calculate_confidence contexts intent \<le> 0.95"
proof (cases "contexts = []")
  case True
  then show ?thesis by (simp add: calculate_confidence_def)
next
  case False
  define x where "x = min (sum_list (map score contexts) / real (length contexts) * intent_weight intent) 0.95"
  have "x * 100 \<le> of_int 95" by (simp add: x_def)
  then have "round_half_even (x * 100) \<le> 95" by (rule round_half_even_le)
  then have "(of_int (round_half_even (x * 100)) :: real) \<le> 95" by linarith
  then have "round2 x \<le> 0.95" by (simp add: round2_def)
  then show ?thesis using False by (simp add: calculate_confidence_def Let_def x_def)
qed

lemma intent_weight_pos: "0 < intent_weight intent"
  by (simp add: intent_weight_def)

lemma calculate_confidence_lower:
  "0 \<le> sum_list (map score contexts) \<Longrightarrow> 0 \<le> calculate_confidence contexts intent"
proof (cases "contexts = []")
  case True
  then show ?thesis by (simp add: calculate_confidence_def)
next
  case False
  assume nn: "0 \<le> sum_list (map score contexts)"
  define x where "x = min (sum_list (map score contexts) / real (length contexts) * intent_weight intent) 0.95"
  have "0 \<le> sum_list (map score contexts) / real (length contexts) * intent_weight intent"
    using nn intent_weight_pos [of intent] by (simp add: less_imp_le)
  then have "of_int 0 \<le> x * 100" by (simp add: x_def)
  then have "0 \<le> round_half_even (x * 100)" by (rule round_half_even_ge)
  then have "0 \<le> round2 x" by (simp add: round2_def)
  then show ?thesis using False by (simp add: calculate_confidence_def Let_def x_def)
qed

text \<open>
  C3. For a non-empty list of contexts the generation confidence is the average
  similarity times the intent weight, capped at 0.95 and rounded to 2 decimals, and should
  lie in [0, 0.95]; for no context it is 0.5. The code has the cap and no floor: one
  context of similarity -0.5 (cosine distance 1.5) under intent hot gives -0.5.
\<close>

theorem calculate_confidence_negative:
  "calculate_confidence
     [\<lparr>doc_id = ''kb_1'', content = ''Product Overview'', score = - 0.5, metadata = []\<rparr>] ''hot''
   = - 0.5
   \<and> calculate_confidence
     [\<lparr>doc_id = ''kb_1'', content = ''Product Overview'', score = - 0.5, metadata = []\<rparr>] ''hot''
   < 0"
  by (simp add: calculate_confidence_def intent_weight_def round2_def round_half_even_def Let_def)

section \<open>Properties of message generation\<close>

lemma fallback_subject_nonempty: "subject (generate_fallback_message lead intent) \<noteq> []"
  by (simp add: generate_fallback_message_def Let_def hot_fallback_subject_def
      warm_fallback_subject_def cold_fallback_subject_def)

lemma fallback_body_nonempty: "body (generate_fallback_message lead intent) \<noteq> []"
  by (simp add: generate_fallback_message_def Let_def hot_fallback_body_def
      warm_fallback_body_def cold_fallback_body_def newline_def)

lemma try_generate_fails:
  "backend_fails e rq \<Longrightarrow> \<exists>err. try_generate e mg lead intent contexts rq w = (Inl err, w)"
  by (auto simp: backend_fails_def try_generate_def split: sum.splits list.splits)

lemma fallback_on_failure:
  assumes "obtain_contexts e mg lead intent retrieved w = (Inr contexts, w1)"
    and "build_request mg lead intent contexts = Inr rq"
    and "backend_fails e rq"
  shows "generate_message e mg lead intent retrieved w
           = (Inr (generate_fallback_message lead intent), w1)"
proof -
  from assms(3) obtain err where "try_generate e mg lead intent contexts rq w1 = (Inl err, w1)"
    using try_generate_fails by blast
  then show ?thesis using assms(1,2) by (simp add: generate_message_def)
qed

lemma sample_request:
  "\<exists>rq. build_request sample_generator sample_lead ''hot'' [] = Inr rq"
  by (simp add: build_request_def source_meta_of_def sample_lead_def)

lemma sample_contexts:
  "obtain_contexts e sample_generator sample_lead ''hot'' (Some []) fresh_world
     = (Inr [], fresh_world)"
  by (simp add: obtain_contexts_def)

lemma fallback_dict:
  "as_dict (generate_fallback_message lead intent) =
     [(''subject'',
              FStr (if intent = ''hot'' then ''Re: Your BizPilot inquiry''
                    else if intent = ''warm'' then ''Learn more about BizPilot''
                    else ''Nice to meet you!'')),
             (''body'',
              FStr (join [CHR 0x0A]
                 (if intent = ''hot'' then
                    [''Hi '' @ py_str (get_or (name lead) (PStr ''there'')) @ '','',
                     [],
                     ''Thanks for your interest in BizPilot!'',
                     [],
                     ''I'' @ [CHR 0x27] @ ''d love to show you how we can help automate your lead management and boost conversions.'',
                     [],
                     ''Are you available for a quick 15-minute demo this week?'',
                     [],
                     ''Best,'',
                     ''BizPilot Team'']
                  else if intent = ''warm'' then
                    [''Hi '' @ py_str (get_or (name lead) (PStr ''there'')) @ '','',
                     [],
                     ''Thanks for reaching out!'',
                     [],
                     ''BizPilot helps small businesses automate lead triage and follow-ups, typically improving conversion rates by 15-25%.'',
                     [],
                     ''I'' @ [CHR 0x27] @ ''d be happy to share more details about how it works. Would you like to see a quick demo?'',
                     [],
                     ''Best,'',
                     ''BizPilot Team'']
                  else
                    [''Hi '' @ py_str (get_or (name lead) (PStr ''there'')) @ '','',
                     [],
                     ''Thanks for your inquiry!'',
                     [],
                     ''BizPilot is a lead management automation platform for small businesses. We'' @ [CHR 0x27] @ ''d be happy to share more information.'',
                     [],
                     ''Feel free to reply if you'' @ [CHR 0x27] @ ''d like to learn more!'',
                     [],
                     ''Best,'',
                     ''BizPilot Team'']))),
             (''channel'', FStr ''email''),
             (''confidence'', FReal 0.50),
             (''template_used'', FStr ''fallback''),
             (''context_used'', FList []),
             (''context_snippets'', FList []),
             (''model_version'', FStr ''fallback''),
             (''latency_ms'', FInt 0),
             (''tokens_used'', FInt 0)]"
  by (simp add: as_dict_def generate_fallback_message_def Let_def
      hot_fallback_subject_def warm_fallback_subject_def cold_fallback_subject_def
      hot_fallback_body_def warm_fallback_body_def cold_fallback_body_def newline_def)

lemma success_writes_audit_row:
  assumes "obtain_contexts e mg lead intent retrieved w = (Inr contexts, w1)"
    and "build_request mg lead intent contexts = Inr rq"
    and "messages_create e rq = Inr rsp" and "rs_content rsp = raw # rest"
    and "db_commit e = None"
  shows "generate_message e mg lead intent retrieved w =
           (Inr \<lparr>subject = fst (parse_response raw),
                 body = snd (parse_response raw),
                 channel = ''email'',
                 confidence = calculate_confidence contexts intent,
                 template_used = t_name (templates_get intent),
                 context_used = map doc_id contexts,
                 context_snippets = map (\<lambda>ctx. take 200 (content ctx)) contexts,
                 model_version = mg_model_version mg,
                 latency_ms = elapsed_ms e,
                 tokens_used = rs_input_tokens rsp + rs_output_tokens rsp\<rparr>,
            w1\<lparr>model_logs := model_logs w1 @
                 [\<lparr>ml_model_version = mg_model_version mg,
                   ml_operation = ''generate_message'',
                   ml_input_data = (lead, intent),
                   ml_output_data = (fst (parse_response raw), snd (parse_response raw)),
                   ml_latency_ms = elapsed_ms e,
                   ml_tokens_used = rs_input_tokens rsp + rs_output_tokens rsp,
                   ml_cost_usd = cost_usd (rs_input_tokens rsp + rs_output_tokens rsp),
                   ml_confidence_score = calculate_confidence contexts intent\<rparr>]\<rparr>)"
  using assms
  by (simp add: generate_message_def try_generate_def log_model_call_def Let_def
      split: prod.splits)

lemma audit_failure_gives_fallback:
  assumes "obtain_contexts e mg lead intent retrieved w = (Inr contexts, w1)"
    and "build_request mg lead intent contexts = Inr rq"
    and "db_commit e = Some err"
  shows "generate_message e mg lead intent retrieved w
           = (Inr (generate_fallback_message lead intent), w1)"
proof -
  obtain r w2 where t: "try_generate e mg lead intent contexts rq w1 = (r, w2)"
    by (cases "try_generate e mg lead intent contexts rq w1")
  have "w2 = w1 \<and> (\<exists>x. r = Inl x)"
    using t assms(3)
    by (auto simp: try_generate_def log_model_call_def Let_def
        split: sum.splits list.splits prod.splits option.splits)
  then show ?thesis
    using assms(1,2) t by (auto simp: generate_message_def)
qed

text \<open>
  C2, as amended. When the call to the generative backend fails (it raises, or its answer
  cannot be read), generate_message does not pass the error on: it returns the static
  fallback message of the intent (hot, warm, and the cold one for every other intent),
  with confidence 0.50, template "fallback", no context ids and no snippets, latency_ms
  and tokens_used zero, and a non-empty subject and body. The message has the ten keys
  listed and no cost field.
\<close>

theorem generate_message_fallback:
  assumes "obtain_contexts e mg lead intent retrieved w = (Inr contexts, w1)"
    and "build_request mg lead intent contexts = Inr rq"
    and "backend_fails e rq"
  shows "\<exists>m. generate_message e mg lead intent retrieved w = (Inr m, w1)
           \<and> as_dict m =
            [(''subject'',
              FStr (if intent = ''hot'' then ''Re: Your BizPilot inquiry''
                    else if intent = ''warm'' then ''Learn more about BizPilot''
                    else ''Nice to meet you!'')),
             (''body'',
              FStr (join [CHR 0x0A]
                 (if intent = ''hot'' then
                    [''Hi '' @ py_str (get_or (name lead) (PStr ''there'')) @ '','',
                     [],
                     ''Thanks for your interest in BizPilot!'',
                     [],
                     ''I'' @ [CHR 0x27] @ ''d love to show you how we can help automate your lead management and boost conversions.'',
                     [],
                     ''Are you available for a quick 15-minute demo this week?'',
                     [],
                     ''Best,'',
                     ''BizPilot Team'']
                  else if intent = ''warm'' then
                    [''Hi '' @ py_str (get_or (name lead) (PStr ''there'')) @ '','',
                     [],
                     ''Thanks for reaching out!'',
                     [],
                     ''BizPilot helps small businesses automate lead triage and follow-ups, typically improving conversion rates by 15-25%.'',
                     [],
                     ''I'' @ [CHR 0x27] @ ''d be happy to share more details about how it works. Would you like to see a quick demo?'',
                     [],
                     ''Best,'',
                     ''BizPilot Team'']
                  else
                    [''Hi '' @ py_str (get_or (name lead) (PStr ''there'')) @ '','',
                     [],
                     ''Thanks for your inquiry!'',
                     [],
                     ''BizPilot is a lead management automation platform for small businesses. We'' @ [CHR 0x27] @ ''d be happy to share more information.'',
                     [],
                     ''Feel free to reply if you'' @ [CHR 0x27] @ ''d like to learn more!'',
                     [],
                     ''Best,'',
                     ''BizPilot Team'']))),
             (''channel'', FStr ''email''),
             (''confidence'', FReal 0.50),
             (''template_used'', FStr ''fallback''),
             (''context_used'', FList []),
             (''context_snippets'', FList []),
             (''model_version'', FStr ''fallback''),
             (''latency_ms'', FInt 0),
             (''tokens_used'', FInt 0)]
           \<and> subject m \<noteq> [] \<and> body m \<noteq> []"
proof -
  have g: "generate_message e mg lead intent retrieved w = (Inr (generate_fallback_message lead intent), w1)"
    using assms by (rule fallback_on_failure)
  show ?thesis
    using g fallback_dict [of lead intent]
      fallback_subject_nonempty [of lead intent] fallback_body_nonempty [of lead intent]
    by blast
qed

theorem generate_message_fallback_witness:
  "\<exists>m. generate_message timeout_env sample_generator sample_lead ''hot'' (Some []) fresh_world
          = (Inr m, fresh_world)
       \<and> as_dict m =
         [(''subject'', FStr ''Re: Your BizPilot inquiry''),
          (''body'',
           FStr (join [CHR 0x0A]
                    [''Hi '' @ ''Sarah Johnson'' @ '','',
                     [],
                     ''Thanks for your interest in BizPilot!'',
                     [],
                     ''I'' @ [CHR 0x27] @ ''d love to show you how we can help automate your lead management and boost conversions.'',
                     [],
                     ''Are you available for a quick 15-minute demo this week?'',
                     [],
                     ''Best,'',
                     ''BizPilot Team''])),
          (''channel'', FStr ''email''),
          (''confidence'', FReal 0.50),
          (''template_used'', FStr ''fallback''),
          (''context_used'', FList []),
          (''context_snippets'', FList []),
          (''model_version'', FStr ''fallback''),
          (''latency_ms'', FInt 0),
          (''tokens_used'', FInt 0)]
       \<and> subject m \<noteq> [] \<and> body m \<noteq> []"
proof -
  note o = sample_contexts [of timeout_env]
  obtain rq where b: "build_request sample_generator sample_lead ''hot'' [] = Inr rq"
    using sample_request by blast
  have f: "backend_fails timeout_env rq"
    by (simp add: backend_fails_def timeout_env_def ref_env_def)
  have n: "py_str (get_or (name sample_lead) (PStr ''there'')) = ''Sarah Johnson''"
    by (simp add: sample_lead_def get_or_def)
  show ?thesis
    using generate_message_fallback [OF o b f] unfolding n by simp
qed

text \<open>
  C2, as stated, fails on the cost field: the message returned after a backend timeout has
  the ten keys below, none of which is about cost.
\<close>

theorem fallback_has_no_cost_field:
  "fst (generate_message timeout_env sample_generator sample_lead ''hot'' (Some []) fresh_world)
     = Inr (generate_fallback_message sample_lead ''hot'')
   \<and> map fst (as_dict (generate_fallback_message sample_lead ''hot'')) =
       [''subject'', ''body'', ''channel'', ''confidence'', ''template_used'', ''context_used'',
        ''context_snippets'', ''model_version'', ''latency_ms'', ''tokens_used'']
   \<and> map_of (as_dict (generate_fallback_message sample_lead ''hot'')) ''cost_usd'' = None
   \<and> list_all (\<lambda>k. \<not> py_in ''cost'' k)
        (map fst (as_dict (generate_fallback_message sample_lead ''hot'')))"
  by code_simp

text \<open>
  C5. Every call to generate_message should leave an audit record, and a failure of the
  audit write should never change what the caller gets. The audit write sits inside the
  try, after the backend has answered: with the same answer from the backend, a working
  commit returns the generated message and writes one row, a failing commit returns the
  fallback message instead and writes none; and a call whose backend times out returns the
  fallback message and writes no row either.
\<close>

theorem audit_failure_changes_result:
  "fst (generate_message reply_env sample_generator sample_lead ''hot'' (Some []) fresh_world)
     = Inr \<lparr>subject = ''Your demo'',
            body = ''Hi Sarah,'' @ [CHR 0x0A] @ ''see you soon.'',
            channel = ''email'',
            confidence = 0.5,
            template_used = ''high_intent_followup'',
            context_used = [],
            context_snippets = [],
            model_version = ''claude-sonnet-4-5-20250929'',
            latency_ms = 0,
            tokens_used = 500\<rparr>
   \<and> map ml_operation
       (model_logs (snd (generate_message reply_env sample_generator sample_lead ''hot'' (Some [])
                           fresh_world))) = [''generate_message'']
   \<and> fst (generate_message (reply_env\<lparr>db_commit := Some DatabaseError\<rparr>) sample_generator
            sample_lead ''hot'' (Some []) fresh_world)
       = Inr (generate_fallback_message sample_lead ''hot'')
   \<and> fst (generate_message (reply_env\<lparr>db_commit := Some DatabaseError\<rparr>) sample_generator
            sample_lead ''hot'' (Some []) fresh_world)
       \<noteq> fst (generate_message reply_env sample_generator sample_lead ''hot'' (Some []) fresh_world)
   \<and> model_logs (snd (generate_message (reply_env\<lparr>db_commit := Some DatabaseError\<rparr>)
                         sample_generator sample_lead ''hot'' (Some []) fresh_world)) = []
   \<and> fst (generate_message timeout_env sample_generator sample_lead ''hot'' (Some []) fresh_world)
       = Inr (generate_fallback_message sample_lead ''hot'')
   \<and> model_logs (snd (generate_message timeout_env sample_generator sample_lead ''hot'' (Some [])
                         fresh_world)) = []"
  by code_simp

section \<open>Properties of the two retrieval passes\<close>

lemma join_Cons: "join sep (p # ps) = p @ (if ps = [] then [] else sep @ join sep ps)"
  by (cases ps) simp_all

lemma lower_append: "lower (a @ b) = lower a @ lower b"
  by (simp add: lower_def)



lemma classify_query_parts:
  "source_meta_of lead = Inr sm \<Longrightarrow>
   classify_query lead =
     Inr (if truthy (get_or (company lead) PNone) \<or> truthy (dict_get sm ''message'' PNone)
             \<or> truthy (dict_get sm ''subject'' PNone)
          then PStr (join [CHR 0x0A]
                 ((if truthy (get_or (company lead) PNone)
                   then [''Company: '' @ py_str (get_or (company lead) PNone)] else [])
                  @ (if truthy (dict_get sm ''message'' PNone)
                     then [''Message: '' @ py_str (dict_get sm ''message'' PNone)] else [])
                  @ (if truthy (dict_get sm ''subject'' PNone)
                     then [''Subject: '' @ py_str (dict_get sm ''subject'' PNone)] else [])))
          else get_or (name lead) (PStr []),
          sm)"
  by (simp add: classify_query_def query_parts_def Let_def)






section \<open>Properties of the classified text\<close>

lemma has_signal_company:
  assumes "has_signal signals cn"
  shows "has_signal signals (join sep ((label @ cn) # rest))"
proof -
  from assms obtain s where s: "s \<in> set signals" "sublist s (lower cn)"
    by (auto simp: has_signal_def list_ex_iff py_in_def)
  let ?tail = "if rest = [] then [] else sep @ join sep rest"
  have "lower (join sep ((label @ cn) # rest)) = lower label @ lower cn @ lower ?tail"
    by (simp only: join_Cons lower_append append_assoc)
  moreover have "sublist s (lower label @ lower cn @ lower ?tail)"
    using s(2) by (rule sublist_between)
  ultimately show ?thesis
    using s(1) by (auto simp: has_signal_def list_ex_iff py_in_def)
qed

lemma classify_lead_result:
  assumes "classify_lead e es lead w = (Inr cl, w')"
  shows "\<exists>q sm contexts. classify_query lead = Inr (PStr q, sm)
           \<and> classify_with_rules q contexts sm = (cl_intent cl, cl_confidence cl, cl_reason cl)"
  using assms
  by (auto simp: classify_lead_def split: sum.splits prod.splits py_val.splits)

lemma brief_reason:
  "snd (snd (classify_with_rules q contexts sm)) = ''Brief inquiry, needs more context''
   \<Longrightarrow> length q < 20"
  by (simp add: classify_with_rules_def Let_def split: if_splits)

text \<open>
  C10. The text the rules inspect is not the raw inquiry. For a lead with a company, a
  message or a subject it is the newline-joined list of those fields, each behind its
  label "Company: ", "Message: " or "Subject: ". So a phrase inside the company name
  triggers the keyword rules, and the rule on queries under 20 characters measures the
  labelled text: a lead with a company name only is classified on at least 9 characters.
\<close>

theorem classified_text_is_labelled:
  "(source_meta_of lead = Inr sm
      \<and> (truthy (get_or (company lead) PNone) \<or> truthy (dict_get sm ''message'' PNone)
          \<or> truthy (dict_get sm ''subject'' PNone)) \<longrightarrow>
      classify_query lead =
        Inr (PStr (join [CHR 0x0A]
               ((if truthy (get_or (company lead) PNone)
                 then [''Company: '' @ py_str (get_or (company lead) PNone)] else [])
                @ (if truthy (dict_get sm ''message'' PNone)
                   then [''Message: '' @ py_str (dict_get sm ''message'' PNone)] else [])
                @ (if truthy (dict_get sm ''subject'' PNone)
                   then [''Subject: '' @ py_str (dict_get sm ''subject'' PNone)] else []))),
             sm))
   \<and> (classify_lead e es lead w = (Inr cl, w') \<longrightarrow>
        (\<exists>q sm' contexts. classify_query lead = Inr (PStr q, sm')
           \<and> classify_with_rules q contexts sm' = (cl_intent cl, cl_confidence cl, cl_reason cl)))
   \<and> (company lead = Some (PStr cn) \<and> has_signal hot_signals cn
        \<and> classify_lead e es lead w = (Inr cl, w') \<longrightarrow>
        cl_intent cl = ''hot'' \<and> cl_confidence cl = 0.85)
   \<and> (company lead = Some (PStr cn) \<and> cn \<noteq> [] \<and> source_meta_of lead = Inr sm
        \<and> \<not> truthy (dict_get sm ''message'' PNone) \<and> \<not> truthy (dict_get sm ''subject'' PNone) \<longrightarrow>
        classify_query lead = Inr (PStr (''Company: '' @ cn), sm)
        \<and> 9 \<le> length (''Company: '' @ cn))
   \<and> (classify_lead e es lead w = (Inr cl, w')
        \<and> cl_reason cl = ''Brief inquiry, needs more context'' \<longrightarrow>
        (\<exists>q sm'. classify_query lead = Inr (PStr q, sm') \<and> length q < 20))"
proof -
  have p1: "source_meta_of lead = Inr sm
      \<and> (truthy (get_or (company lead) PNone) \<or> truthy (dict_get sm ''message'' PNone)
          \<or> truthy (dict_get sm ''subject'' PNone)) \<longrightarrow>
      classify_query lead =
        Inr (PStr (join [CHR 0x0A]
               ((if truthy (get_or (company lead) PNone)
                 then [''Company: '' @ py_str (get_or (company lead) PNone)] else [])
                @ (if truthy (dict_get sm ''message'' PNone)
                   then [''Message: '' @ py_str (dict_get sm ''message'' PNone)] else [])
                @ (if truthy (dict_get sm ''subject'' PNone)
                   then [''Subject: '' @ py_str (dict_get sm ''subject'' PNone)] else []))),
             sm)"
    using classify_query_parts [of lead sm] by presburger
  have p2: "classify_lead e es lead w = (Inr cl, w') \<longrightarrow>
        (\<exists>q sm' contexts. classify_query lead = Inr (PStr q, sm')
           \<and> classify_with_rules q contexts sm' = (cl_intent cl, cl_confidence cl, cl_reason cl))"
    using classify_lead_result by blast
  have p3: "company lead = Some (PStr cn) \<and> has_signal hot_signals cn
        \<and> classify_lead e es lead w = (Inr cl, w') \<longrightarrow>
        cl_intent cl = ''hot'' \<and> cl_confidence cl = 0.85"
  proof
    assume a: "company lead = Some (PStr cn) \<and> has_signal hot_signals cn
        \<and> classify_lead e es lead w = (Inr cl, w')"
    then obtain q sm' contexts where q: "classify_query lead = Inr (PStr q, sm')"
      and r: "classify_with_rules q contexts sm' = (cl_intent cl, cl_confidence cl, cl_reason cl)"
      using classify_lead_result by blast
    from a have ne: "cn \<noteq> []"
      by (auto simp: has_signal_def list_ex_iff py_in_def hot_signals_def lower_def)
    from q have sm: "source_meta_of lead = Inr sm'"
      by (auto simp: classify_query_def Let_def split: sum.splits)
    have "\<exists>rest. q = join [CHR 0x0A] ((''Company: '' @ cn) # rest)"
      using q a ne classify_query_parts [OF sm] by (auto simp: get_or_def)
    then have "has_signal hot_signals q"
      using a has_signal_company by blast
    then have "classify_with_rules q contexts sm' =
       (''hot'', 0.85, ''High-intent keywords detected: '' @ repr_list (matched hot_signals (lower q)))"
      by (simp add: classify_with_rules_def has_signal_def Let_def)
    with r show "cl_intent cl = ''hot'' \<and> cl_confidence cl = 0.85" by simp
  qed
  have p4: "company lead = Some (PStr cn) \<and> cn \<noteq> [] \<and> source_meta_of lead = Inr sm
        \<and> \<not> truthy (dict_get sm ''message'' PNone) \<and> \<not> truthy (dict_get sm ''subject'' PNone) \<longrightarrow>
        classify_query lead = Inr (PStr (''Company: '' @ cn), sm)
        \<and> 9 \<le> length (''Company: '' @ cn)"
  proof
    assume a: "company lead = Some (PStr cn) \<and> cn \<noteq> [] \<and> source_meta_of lead = Inr sm
        \<and> \<not> truthy (dict_get sm ''message'' PNone) \<and> \<not> truthy (dict_get sm ''subject'' PNone)"
    then have "source_meta_of lead = Inr sm" by simp
    from classify_query_parts [OF this] a
    show "classify_query lead = Inr (PStr (''Company: '' @ cn), sm)
        \<and> 9 \<le> length (''Company: '' @ cn)"
      by (simp add: get_or_def)
  qed
  have p5: "classify_lead e es lead w = (Inr cl, w')
        \<and> cl_reason cl = ''Brief inquiry, needs more context'' \<longrightarrow>
        (\<exists>q sm'. classify_query lead = Inr (PStr q, sm') \<and> length q < 20)"
  proof
    assume a: "classify_lead e es lead w = (Inr cl, w')
        \<and> cl_reason cl = ''Brief inquiry, needs more context''"
    then obtain q sm' contexts where q: "classify_query lead = Inr (PStr q, sm')"
      and r: "classify_with_rules q contexts sm' = (cl_intent cl, cl_confidence cl, cl_reason cl)"
      using classify_lead_result by blast
    from r a have "snd (snd (classify_with_rules q contexts sm')) = ''Brief inquiry, needs more context''"
      by simp
    then have "length q < 20" by (rule brief_reason)
    with q show "\<exists>q sm'. classify_query lead = Inr (PStr q, sm') \<and> length q < 20" by blast
  qed
  show ?thesis
    by (intro conjI p1 p2 p3 p4 p5)
qed


lemma run_demo_masters:
  "classify_lead reply_env local_service (company_lead ''Demo Masters'') fresh_world =
     (Inr \<lparr>cl_intent = ''hot'', cl_confidence = 0.85,
           cl_reason = ''High-intent keywords detected: ['' @ [CHR 0x27] @ ''demo'' @ [CHR 0x27] @ '']'',
           cl_retrieved_docs = [], cl_context_snippets = []\<rparr>,
      \<lparr>knowledge_base = [], model_logs = [], collection = [],
       calls = [EmbedCall [''Company: Demo Masters''], QueryCall [1, 0] 5 None]\<rparr>)"
  by code_simp

lemma run_acme:
  "classify_lead reply_env local_service (company_lead ''Acme'') fresh_world =
     (Inr \<lparr>cl_intent = ''cold'', cl_confidence = 0.60,
           cl_reason = ''Brief inquiry, needs more context'',
           cl_retrieved_docs = [], cl_context_snippets = []\<rparr>,
      \<lparr>knowledge_base = [], model_logs = [], collection = [],
       calls = [EmbedCall [''Company: Acme''], QueryCall [1, 0] 5 None]\<rparr>)"
  by code_simp


theorem classified_text_is_labelled_witness:
  "classify_query sample_lead =
     Inr (PStr (''Company: TechStart Inc'' @ [CHR 0x0A]
                 @ ''Message: I saw your product and want to schedule a demo.''),
          [(''message'', PStr ''I saw your product and want to schedule a demo.'')])
   \<and> (\<exists>cl w'. classify_lead reply_env local_service (company_lead ''Demo Masters'') fresh_world
                  = (Inr cl, w')
          \<and> cl_intent cl = ''hot'' \<and> cl_confidence cl = 0.85
          \<and> (\<exists>q sm' contexts. classify_query (company_lead ''Demo Masters'') = Inr (PStr q, sm')
                \<and> classify_with_rules q contexts sm'
                    = (cl_intent cl, cl_confidence cl, cl_reason cl)))
   \<and> classify_query (company_lead ''Acme'') = Inr (PStr ''Company: Acme'', [])
   \<and> 9 \<le> length ''Company: Acme''
   \<and> (\<exists>cl w'. classify_lead reply_env local_service (company_lead ''Acme'') fresh_world
                  = (Inr cl, w')
          \<and> cl_reason cl = ''Brief inquiry, needs more context''
          \<and> (\<exists>q sm'. classify_query (company_lead ''Acme'') = Inr (PStr q, sm') \<and> length q < 20))"
proof -
  let ?sm = "[(''message'', PStr ''I saw your product and want to schedule a demo.'')]"
  let ?cl1 = "\<lparr>cl_intent = ''hot'', cl_confidence = 0.85,
           cl_reason = ''High-intent keywords detected: ['' @ [CHR 0x27] @ ''demo'' @ [CHR 0x27] @ '']'',
           cl_retrieved_docs = [], cl_context_snippets = []\<rparr>"
  let ?w1 = "\<lparr>knowledge_base = [], model_logs = [], collection = [],
       calls = [EmbedCall [''Company: Demo Masters''], QueryCall [1, 0] 5 None]\<rparr>"
  let ?cl2 = "\<lparr>cl_intent = ''cold'', cl_confidence = 0.60,
           cl_reason = ''Brief inquiry, needs more context'',
           cl_retrieved_docs = [], cl_context_snippets = []\<rparr>"
  let ?w2 = "\<lparr>knowledge_base = [], model_logs = [], collection = [],
       calls = [EmbedCall [''Company: Acme''], QueryCall [1, 0] 5 None]\<rparr>"
  have s1: "source_meta_of sample_lead = Inr ?sm
            \<and> (truthy (get_or (company sample_lead) PNone) \<or> truthy (dict_get ?sm ''message'' PNone)
                \<or> truthy (dict_get ?sm ''subject'' PNone))"
    by (simp add: source_meta_of_def sample_lead_def get_or_def)
  have h: "company (company_lead ''Demo Masters'') = Some (PStr ''Demo Masters'')
           \<and> has_signal hot_signals ''Demo Masters''"
    by code_simp
  have a: "company (company_lead ''Acme'') = Some (PStr ''Acme'') \<and> ''Acme'' \<noteq> []
           \<and> source_meta_of (company_lead ''Acme'') = Inr []
           \<and> \<not> truthy (dict_get [] ''message'' PNone) \<and> \<not> truthy (dict_get [] ''subject'' PNone)"
    by (simp add: company_lead_def source_meta_of_def dict_get_def)
  have r2: "cl_reason ?cl2 = ''Brief inquiry, needs more context''" by simp
  note t1 = classified_text_is_labelled [where lead = sample_lead and sm = ?sm]
  note t2 = classified_text_is_labelled [where lead = "company_lead ''Demo Masters''"
      and cn = "''Demo Masters''" and e = reply_env and es = local_service and w = fresh_world
      and cl = ?cl1 and w' = ?w1]
  note t3 = classified_text_is_labelled [where lead = "company_lead ''Acme''" and sm = "[]"
      and cn = "''Acme''" and e = reply_env and es = local_service and w = fresh_world
      and cl = ?cl2 and w' = ?w2]
  have q1: "classify_query sample_lead =
     Inr (PStr (''Company: TechStart Inc'' @ [CHR 0x0A]
                 @ ''Message: I saw your product and want to schedule a demo.''), ?sm)"
    using t1 s1 by (simp add: sample_lead_def get_or_def dict_get_def)
  have q2: "cl_intent ?cl1 = ''hot'' \<and> cl_confidence ?cl1 = 0.85
            \<and> (\<exists>q sm' contexts. classify_query (company_lead ''Demo Masters'') = Inr (PStr q, sm')
                \<and> classify_with_rules q contexts sm'
                    = (cl_intent ?cl1, cl_confidence ?cl1, cl_reason ?cl1))"
    using t2 h run_demo_masters by blast
  have q3: "classify_query (company_lead ''Acme'') = Inr (PStr (''Company: '' @ ''Acme''), [])
            \<and> 9 \<le> length (''Company: '' @ ''Acme'')"
    using t3 a by blast
  have q4: "\<exists>q sm'. classify_query (company_lead ''Acme'') = Inr (PStr q, sm') \<and> length q < 20"
    using t3 run_acme r2 by blast
  show ?thesis
    using q1 q2 q3 q4 run_demo_masters run_acme by simp
qed

section \<open>Properties of the knowledge store\<close>

text \<open>An indexing run embeds and writes documents that are active, and no others.\<close>

lemma index_writes_active_only:
  assumes "index_knowledge_base e es f w = (r, w')"
  shows "calls w' = calls w
         \<or> (\<exists>D. set D \<subseteq> {doc \<in> set (knowledge_base w). kb_active doc}
                \<and> (calls w' = calls w @ [EmbedCall (map kb_content D)]
                    \<or> calls w' = calls w @ [EmbedCall (map kb_content D), AddCall (map kb_doc_id D)]))"
proof -
  let ?D = "filter (needs_index f) (filter kb_active (knowledge_base w))"
  have sub: "set ?D \<subseteq> {doc \<in> set (knowledge_base w). kb_active doc}" by auto
  have ids: "map vd_id (map to_vector_doc ?D) = map kb_doc_id ?D"
    by (simp add: to_vector_doc_def)
  have "calls w' = calls w
        \<or> calls w' = calls w @ [EmbedCall (map kb_content ?D)]
        \<or> calls w' = calls w @ [EmbedCall (map kb_content ?D), AddCall (map vd_id (map to_vector_doc ?D))]"
    using assms
    by (auto simp: index_knowledge_base_def embed_batch_def add_documents_def Let_def
        split: if_splits sum.splits prod.splits option.splits)
  then show ?thesis
    unfolding ids using sub by blast
qed

text \<open>
  C4. A document whose active flag is false should never be returned by search, also when
  it was indexed while active and deactivated later. Indexing reads the active documents
  only, but nothing removes an entry when its document is deactivated, and search does not
  look at the flag: the sample document, indexed and then deactivated, is still returned.
\<close>

theorem deactivated_document_is_returned:
  "map kb_active (knowledge_base (deactivate 1 indexed_world)) = [False]
   \<and> fst (search timeout_env [1, 0] 5 None (deactivate 1 indexed_world)) =
       Inr [\<lparr>doc_id = ''kb_1'',
             content = ''BizPilot automates lead management and follow-up for small businesses.'',
             score = 1,
             metadata = [(''title'', PStr ''Product Overview''), (''doc_type'', PStr ''product_page''),
                         (''source_url'', PStr []), (''priority'', PInt 0)]\<rparr>]"
  by code_simp













end
